theory Spec2Isabelle
  imports Main
begin

section \<open>The session relay of server.js\<close>

text \<open>
  The model follows the revision of server.js that registers the webhook at startup and
  reverts a rejected PIN after two seconds (src/unnamed/part_000). Times are milliseconds
  (\<open>Date.now()\<close>) as \<open>int\<close>. Request fields are strings or absent
  (\<open>None\<close> is JavaScript's \<open>undefined\<close>).

  Every handler is modelled as one atomic step: the replies of the chat transport
  (\<open>tgSend\<close>) are inputs of the step, the texts of the outbound messages are not
  modelled. The store \<open>sessions\<close> is the set of own properties of the object, and the
  order in which \<open>Object.entries\<close> lists them is not modelled. The object is a plain
  \<open>{}\<close>, so reading \<open>sessions[k]\<close> also finds the members inherited from
  \<open>Object.prototype\<close>: the status poll models that read. In the handlers that write
  to the session they find, a key that names an inherited member is outside the model.
\<close>

subsection \<open>JavaScript values\<close>

text \<open>\<open>a || b\<close> on possibly absent strings: \<open>undefined\<close> and the empty string are falsy.\<close>

fun truthy :: "string option \<Rightarrow> bool" where
  "truthy None = False"
| "truthy (Some []) = False"
| "truthy (Some (c # cs)) = True"

definition js_or :: "string option \<Rightarrow> string option \<Rightarrow> string option" where
  "js_or a b = (if truthy a then a else b)"

text \<open>A destructuring default \<open>{ x = d }\<close> applies to \<open>undefined\<close> only.\<close>

definition default_to :: "string \<Rightarrow> string option \<Rightarrow> string" where
  "default_to d a = (case a of None \<Rightarrow> d | Some v \<Rightarrow> v)"

text \<open>\<open>sessions[k]\<close> turns the key into a string: \<open>undefined\<close> reads the property "undefined".\<close>

definition prop_key :: "string option \<Rightarrow> string" where
  "prop_key k = (case k of None \<Rightarrow> ''undefined'' | Some s \<Rightarrow> s)"

text \<open>\<open>data.split('::')\<close>, scanning from the left; the first argument collects the current part.\<close>

fun split_sep :: "string \<Rightarrow> string \<Rightarrow> string list" where
  "split_sep acc (c1 # c2 # cs) =
     (if c1 = CHR '':'' \<and> c2 = CHR '':'' then rev acc # split_sep [] cs
      else split_sep (c1 # acc) (c2 # cs))"
| "split_sep acc [c] = [rev (c # acc)]"
| "split_sep acc [] = [rev acc]"

subsection \<open>Sessions and the store\<close>

record session =
  firstName :: string
  lastName :: string
  phone :: "string option"
  pin :: "string option"
  status :: string
  createdAt :: int
  ip :: string
  msgId :: "int option"
  otpMsgId :: "int option"
  otp :: "string option"
  otpAt :: "int option"

text \<open>
  The process state: the store, and the callbacks registered with \<open>setTimeout\<close> that
  have not run yet, each with the time it is due and the session id it captured.
\<close>

record state =
  sessions :: "string \<rightharpoonup> session"
  timers :: "(int \<times> string) list"

definition init :: state where
  "init = \<lparr> sessions = Map.empty, timers = [] \<rparr>"

definition set_status :: "string \<Rightarrow> string \<Rightarrow> state \<Rightarrow> state" where
  "set_status k v st =
     (case sessions st k of
        None \<Rightarrow> st
      | Some s \<Rightarrow> st\<lparr> sessions := (sessions st)(k \<mapsto> s\<lparr> status := v \<rparr>) \<rparr>)"

subsection \<open>The expiry sweep\<close>

definition TTL :: int where
  "TTL = 30 * 60 * 1000"

definition sweep :: "int \<Rightarrow> state \<Rightarrow> state" where
  "sweep now st =
     (let cutoff = now - TTL in
      st\<lparr> sessions := (\<lambda>k. case sessions st k of
                              None \<Rightarrow> None
                            | Some s \<Rightarrow> if createdAt s < cutoff then None else Some s) \<rparr>)"

subsection \<open>POST /api\<close>

record post_body =
  body_action :: "string option"
  body_firstName :: "string option"
  body_lastName :: "string option"
  body_phone :: "string option"
  body_pin :: "string option"
  body_sessionId :: "string option"
  body_otp :: "string option"
  hdr_forwarded :: "string option"
  sock_remote :: "string option"

record dump_entry =
  d_firstName :: string
  d_lastName :: string
  d_phone :: "string option"
  d_pin :: "string option"
  d_otp :: "string option"
  d_status :: string
  d_ip :: string
  d_createdAt :: int

datatype response =
    Success
  | SuccessSession string
  | SuccessStatus string
  | SessionNotFound
  | UnknownAction
  | Forbidden
  | SessionDump "string \<rightharpoonup> dump_entry"

text \<open>
  \<open>uuid\<close> is the value \<open>uuidv4()\<close> returns when it is called, \<open>sent\<close> is the
  message id of the alert when \<open>tgSend\<close> answered with \<open>ok\<close>.
\<close>

definition login_attempt :: "int \<Rightarrow> string \<Rightarrow> int option \<Rightarrow> post_body \<Rightarrow> state \<Rightarrow> response \<times> state" where
  "login_attempt now uuid sent b st =
     (let fn = default_to ''Unknown'' (body_firstName b);
          ln = default_to ''User'' (body_lastName b);
          addr = default_to ''unknown''
                   (js_or (js_or (hdr_forwarded b) (sock_remote b)) (Some ''unknown''));
          found = (if truthy (body_sessionId b) then sessions st (prop_key (body_sessionId b))
                   else None);
          reuse = (case found of None \<Rightarrow> False | Some s \<Rightarrow> status s = ''pending'');
          sid = (if reuse then prop_key (body_sessionId b) else uuid);
          s1 = (case found of
                  Some s \<Rightarrow>
                    if status s = ''pending'' then s\<lparr> pin := body_pin b \<rparr>
                    else \<lparr> firstName = fn, lastName = ln, phone = body_phone b,
                           pin = body_pin b, status = ''pending'', createdAt = now,
                           ip = addr, msgId = None, otpMsgId = None, otp = None,
                           otpAt = None \<rparr>
                | None \<Rightarrow>
                    \<lparr> firstName = fn, lastName = ln, phone = body_phone b,
                      pin = body_pin b, status = ''pending'', createdAt = now,
                      ip = addr, msgId = None, otpMsgId = None, otp = None,
                      otpAt = None \<rparr>);
          s2 = (case sent of None \<Rightarrow> s1 | Some m \<Rightarrow> s1\<lparr> msgId := Some m \<rparr>)
      in (SuccessSession sid, st\<lparr> sessions := (sessions st)(sid \<mapsto> s2) \<rparr>))"

definition otp_entered :: "int \<Rightarrow> int option \<Rightarrow> post_body \<Rightarrow> state \<Rightarrow> response \<times> state" where
  "otp_entered now sent b st =
     (let sid = prop_key (body_sessionId b) in
      case sessions st sid of
        None \<Rightarrow> (SessionNotFound, st)
      | Some s \<Rightarrow>
          (let s1 = s\<lparr> otp := body_otp b, otpAt := Some now \<rparr>;
               s2 = (case sent of None \<Rightarrow> s1 | Some m \<Rightarrow> s1\<lparr> otpMsgId := Some m \<rparr>);
               s3 = s2\<lparr> status := ''otp_pending'' \<rparr>
           in (Success, st\<lparr> sessions := (sessions st)(sid \<mapsto> s3) \<rparr>)))"

definition otp_resend :: "post_body \<Rightarrow> state \<Rightarrow> response \<times> state" where
  "otp_resend b st =
     (let sid = prop_key (body_sessionId b) in
      case sessions st sid of
        None \<Rightarrow> (SessionNotFound, st)
      | Some s \<Rightarrow> (Success, set_status sid ''otp_pending'' st))"

definition reset_otp :: "post_body \<Rightarrow> state \<Rightarrow> response \<times> state" where
  "reset_otp b st =
     (let sid = prop_key (body_sessionId b) in
      case sessions st sid of
        None \<Rightarrow> (SessionNotFound, st)
      | Some s \<Rightarrow> (Success, set_status sid ''otp_pending'' st))"

definition api_post :: "int \<Rightarrow> string \<Rightarrow> int option \<Rightarrow> post_body \<Rightarrow> state \<Rightarrow> response \<times> state" where
  "api_post now uuid sent b st =
     (if body_action b = Some ''login_attempt'' then login_attempt now uuid sent b st
      else if body_action b = Some ''otp_entered'' then otp_entered now sent b st
      else if body_action b = Some ''otp_resend'' then otp_resend b st
      else if body_action b = Some ''reset_otp'' then reset_otp b st
      else if body_action b = Some ''loan_application'' then (Success, st)
      else (UnknownAction, st))"

subsection \<open>GET /api\<close>

text \<open>
  The members every plain object inherits from \<open>Object.prototype\<close>. Each is a function,
  or for \<open>__proto__\<close> the prototype itself: truthy, and without a \<open>status\<close>.
\<close>

definition proto_names :: "string list" where
  "proto_names =
     [''constructor'', ''__proto__'', ''hasOwnProperty'', ''isPrototypeOf'',
      ''propertyIsEnumerable'', ''toLocaleString'', ''toString'', ''valueOf'',
      ''__defineGetter__'', ''__defineSetter__'', ''__lookupGetter__'', ''__lookupSetter__'']"

text \<open>
  \<open>sessions[sessionId]\<close> reads an own property first, then an inherited member. For an
  inherited member \<open>!session\<close> is false and \<open>session.status\<close> is \<open>undefined\<close>, a
  field that \<open>res.json\<close> leaves out: the answer is \<open>{ success: true }\<close>.
\<close>

definition api_get :: "string option \<Rightarrow> string option \<Rightarrow> state \<Rightarrow> response" where
  "api_get action sessionId st =
     (if action = Some ''check_status'' then
        (case sessions st (prop_key sessionId) of
           Some s \<Rightarrow> SuccessStatus (status s)
         | None \<Rightarrow>
             if prop_key sessionId \<in> set proto_names then Success else SessionNotFound)
      else UnknownAction)"

abbreviation poll :: "string \<Rightarrow> state \<Rightarrow> response" where
  "poll k st \<equiv> api_get (Some ''check_status'') (Some k) st"

subsection \<open>POST /webhook\<close>

text \<open>The \<open>callback_data\<close> of the two buttons of each keyboard.\<close>

definition loginKeyboard :: "string \<Rightarrow> string \<times> string" where
  "loginKeyboard sessionId = (''approve::'' @ sessionId, ''wrong_pin::'' @ sessionId)"

definition otpKeyboard :: "string \<Rightarrow> string \<times> string" where
  "otpKeyboard sessionId = (''approve_otp::'' @ sessionId, ''wrong_code::'' @ sessionId)"

text \<open>The text passed to \<open>tgAnswerCallback\<close>, by its meaning.\<close>

datatype answer =
    SessionExpired
  | AlreadyActioned
  | MovedToOtp
  | WrongPinSent
  | OtpApproved
  | WrongCodeSent
  | UnknownButton

definition cb_action :: "string \<Rightarrow> string" where
  "cb_action d = (case split_sep [] d of [] \<Rightarrow> [] | a # ps \<Rightarrow> a)"

definition cb_sessionId :: "string \<Rightarrow> string" where
  "cb_sessionId d =
     prop_key (case split_sep [] d of a # p # ps \<Rightarrow> Some p | _ \<Rightarrow> None)"

definition REVERT_DELAY :: int where
  "REVERT_DELAY = 2000"

text \<open>
  The argument is \<open>update.callback_query.data\<close>, or \<open>None\<close> when the update has no
  \<open>callback_query\<close>; \<open>now\<close> is the time at which \<open>setTimeout\<close> is called.
\<close>

definition webhook :: "int \<Rightarrow> string option \<Rightarrow> state \<Rightarrow> answer option \<times> state" where
  "webhook now cbq st =
     (case cbq of
        None \<Rightarrow> (None, st)
      | Some d \<Rightarrow>
          (let action = cb_action d; sid = cb_sessionId d in
           case sessions st sid of
             None \<Rightarrow> (Some SessionExpired, st)
           | Some s \<Rightarrow>
               if action = ''approve'' then
                 (if status s \<noteq> ''pending'' then (Some AlreadyActioned, st)
                  else (Some MovedToOtp, set_status sid ''approved'' st))
               else if action = ''wrong_pin'' then
                 (if status s \<noteq> ''pending'' then (Some AlreadyActioned, st)
                  else (Some WrongPinSent,
                        (set_status sid ''wrong_pin'' st)
                          \<lparr> timers := timers st @ [(now + REVERT_DELAY, sid)] \<rparr>))
               else if action = ''approve_otp'' then
                 (Some OtpApproved, set_status sid ''continue'' st)
               else if action = ''wrong_code'' then
                 (Some WrongCodeSent, set_status sid ''wrong_code'' st)
               else (Some UnknownButton, st)))"

subsection \<open>The revert timer\<close>

text \<open>The callback of \<open>setTimeout\<close> in the \<open>wrong_pin\<close> case.\<close>

definition revert_cb :: "string \<Rightarrow> state \<Rightarrow> state" where
  "revert_cb sid st =
     (case sessions st sid of
        None \<Rightarrow> st
      | Some s \<Rightarrow> st\<lparr> sessions := (sessions st)(sid \<mapsto> s\<lparr> status := ''pending'' \<rparr>) \<rparr>)"

text \<open>The event loop at time \<open>now\<close>: every callback that is due runs once and is dropped.\<close>

definition run_timers :: "int \<Rightarrow> state \<Rightarrow> state" where
  "run_timers now st =
     fold (\<lambda>t acc. revert_cb (snd t) acc)
       (filter (\<lambda>t. fst t \<le> now) (timers st))
       (st\<lparr> timers := filter (\<lambda>t. \<not> fst t \<le> now) (timers st) \<rparr>)"

subsection \<open>GET /api/sessions\<close>

definition DEFAULT_SECRET :: string where
  "DEFAULT_SECRET = ''wavesmart2026''"

definition ADMIN_SECRET :: "string option \<Rightarrow> string" where
  "ADMIN_SECRET env = default_to DEFAULT_SECRET (js_or env (Some DEFAULT_SECRET))"

text \<open>
  An entry of the dump: \<open>otp\<close> is \<open>s.otp || null\<close>, \<open>createdAt\<close> is kept as the
  number the ISO string is printed from.
\<close>

definition entry_of :: "session \<Rightarrow> dump_entry" where
  "entry_of s =
     \<lparr> d_firstName = firstName s, d_lastName = lastName s, d_phone = phone s,
       d_pin = pin s, d_otp = js_or (otp s) None, d_status = status s, d_ip = ip s,
       d_createdAt = createdAt s \<rparr>"

definition admin_sessions :: "string option \<Rightarrow> string option \<Rightarrow> string option \<Rightarrow> state \<Rightarrow> response" where
  "admin_sessions env q_secret h_secret st =
     (let secret = js_or q_secret h_secret in
      if secret \<noteq> Some (ADMIN_SECRET env) then Forbidden
      else SessionDump (\<lambda>k. map_option entry_of (sessions st k)))"

subsection \<open>Runs\<close>

datatype event =
    Post int string "int option" post_body
  | Hook int "string option"
  | Sweep int
  | Tick int

fun step :: "event \<Rightarrow> state \<Rightarrow> state" where
  "step (Post now uuid sent b) st = snd (api_post now uuid sent b st)"
| "step (Hook now cbq) st = snd (webhook now cbq st)"
| "step (Sweep now) st = sweep now st"
| "step (Tick now) st = run_timers now st"

fun run :: "event list \<Rightarrow> state \<Rightarrow> state" where
  "run [] st = st"
| "run (e # es) st = run es (step e st)"

subsection \<open>Vocabulary of the properties\<close>



text \<open>Request bodies of the client's actions, every other field absent.\<close>

definition empty_body :: post_body where
  "empty_body = \<lparr> body_action = None, body_firstName = None, body_lastName = None,
     body_phone = None, body_pin = None, body_sessionId = None, body_otp = None,
     hdr_forwarded = None, sock_remote = None \<rparr>"

definition login_body :: "string \<Rightarrow> post_body" where
  "login_body p = empty_body\<lparr> body_action := Some ''login_attempt'', body_pin := Some p \<rparr>"

definition relogin_body :: "string \<Rightarrow> string \<Rightarrow> post_body" where
  "relogin_body k p =
     empty_body\<lparr> body_action := Some ''login_attempt'', body_pin := Some p,
                 body_sessionId := Some k \<rparr>"

definition otp_body :: "string \<Rightarrow> string \<Rightarrow> post_body" where
  "otp_body k v =
     empty_body\<lparr> body_action := Some ''otp_entered'', body_sessionId := Some k,
                 body_otp := Some v \<rparr>"

definition reset_body :: "string \<Rightarrow> post_body" where
  "reset_body k = empty_body\<lparr> body_action := Some ''reset_otp'', body_sessionId := Some k \<rparr>"

text \<open>An id without the separator of the callback data, as every UUID is.\<close>

definition sep_free :: "string \<Rightarrow> bool" where
  "sep_free s = (split_sep [] s = [s])"

text \<open>The ids \<open>uuidv4()\<close> may have handed out along a run: those given to a login request.\<close>

fun issued :: "event list \<Rightarrow> string list" where
  "issued [] = []"
| "issued (Post now uuid sent b # es) =
     (if body_action b = Some ''login_attempt'' then uuid # issued es else issued es)"
| "issued (e # es) = issued es"

text \<open>
  \<open>uuidv4()\<close> returns an id that is new: no session has it and no revert timer waits
  for it.
\<close>

fun fresh :: "event \<Rightarrow> state \<Rightarrow> bool" where
  "fresh (Post now uuid sent b) st =
     (body_action b = Some ''login_attempt'' \<longrightarrow>
        sessions st uuid = None \<and> uuid \<notin> snd ` set (timers st))"
| "fresh e st = True"

fun fresh_run :: "event list \<Rightarrow> state \<Rightarrow> bool" where
  "fresh_run [] st = True"
| "fresh_run (e # es) st = (fresh e st \<and> fresh_run es (step e st))"

text \<open>Every turn of the event loop in the run happens before the time \<open>d\<close>.\<close>

fun ticks_before :: "int \<Rightarrow> event list \<Rightarrow> bool" where
  "ticks_before d [] = True"
| "ticks_before d (Tick now # es) = (now < d \<and> ticks_before d es)"
| "ticks_before d (e # es) = ticks_before d es"

text \<open>
  At most one revert timer waits for a session, and a session a timer waits for is not
  \<open>pending\<close>.
\<close>

definition timers_ok :: "state \<Rightarrow> bool" where
  "timers_ok st =
     (distinct (map snd (timers st)) \<and>
      (\<forall>t \<in> set (timers st). \<forall>s. sessions st (snd t) = Some s \<longrightarrow> status s \<noteq> ''pending''))"

section \<open>Properties\<close>

lemmas handler_defs =
  api_post_def login_attempt_def otp_entered_def otp_resend_def reset_otp_def
  webhook_def cb_action_def cb_sessionId_def prop_key_def default_to_def js_or_def
  set_status_def run_timers_def revert_cb_def sweep_def api_get_def
  REVERT_DELAY_def TTL_def Let_def

lemmas body_defs =
  empty_body_def login_body_def relogin_body_def otp_body_def reset_body_def

subsection \<open>Reading the store\<close>

lemma poll_iff: "poll k st = SuccessStatus v \<longleftrightarrow> (\<exists>s. sessions st k = Some s \<and> status s = v)"
  by (auto simp: api_get_def prop_key_def split: option.splits)

lemma poll_absent:
  "sessions st k = None \<Longrightarrow> k \<notin> set proto_names \<Longrightarrow> poll k st = SessionNotFound"
  by (simp add: api_get_def prop_key_def)

lemma s1_not_inherited: "''s1'' \<notin> set proto_names"
  by (simp add: proto_names_def)

lemma sessions_set_status:
  "sessions (set_status j v st) k =
     (if k = j then map_option (\<lambda>s. s\<lparr> status := v \<rparr>) (sessions st k) else sessions st k)"
  by (simp add: set_status_def split: option.splits)

lemma timers_set_status: "timers (set_status j v st) = timers st"
  by (simp add: set_status_def split: option.splits)

lemma sessions_revert_cb:
  "sessions (revert_cb j st) k =
     (if k = j then map_option (\<lambda>s. s\<lparr> status := ''pending'' \<rparr>) (sessions st k)
      else sessions st k)"
  by (simp add: revert_cb_def split: option.splits)

lemma timers_revert_cb: "timers (revert_cb j st) = timers st"
  by (simp add: revert_cb_def split: option.splits)

lemma sessions_fold_revert:
  "sessions (fold (\<lambda>t acc. revert_cb (snd t) acc) ts st) k =
     (if k \<in> snd ` set ts then map_option (\<lambda>s. s\<lparr> status := ''pending'' \<rparr>) (sessions st k)
      else sessions st k)"
  by (induction ts arbitrary: st) (auto simp: sessions_revert_cb option.map_comp comp_def)

lemma timers_fold_revert: "timers (fold (\<lambda>t acc. revert_cb (snd t) acc) ts st) = timers st"
  by (induction ts arbitrary: st) (simp_all add: timers_revert_cb)

text \<open>What one turn of the event loop does to a session: it is reverted when a timer for it is due.\<close>

lemma sessions_run_timers:
  "sessions (run_timers now st) k =
     (if \<exists>d. (d, k) \<in> set (timers st) \<and> d \<le> now
      then map_option (\<lambda>s. s\<lparr> status := ''pending'' \<rparr>) (sessions st k)
      else sessions st k)"
  by (force simp: run_timers_def sessions_fold_revert)

lemma timers_run_timers:
  "timers (run_timers now st) = filter (\<lambda>t. \<not> fst t \<le> now) (timers st)"
  by (simp add: run_timers_def timers_fold_revert)

subsection \<open>The buttons parse back to their action and session\<close>

lemma cb_login_approve:
  "sep_free k \<Longrightarrow>
   cb_action (fst (loginKeyboard k)) = ''approve'' \<and> cb_sessionId (fst (loginKeyboard k)) = k"
  by (simp add: sep_free_def loginKeyboard_def cb_action_def cb_sessionId_def prop_key_def)

lemma cb_login_wrong:
  "sep_free k \<Longrightarrow>
   cb_action (snd (loginKeyboard k)) = ''wrong_pin'' \<and> cb_sessionId (snd (loginKeyboard k)) = k"
  by (simp add: sep_free_def loginKeyboard_def cb_action_def cb_sessionId_def prop_key_def)

lemma cb_otp_approve:
  "sep_free k \<Longrightarrow>
   cb_action (fst (otpKeyboard k)) = ''approve_otp'' \<and> cb_sessionId (fst (otpKeyboard k)) = k"
  by (simp add: sep_free_def otpKeyboard_def cb_action_def cb_sessionId_def prop_key_def)

lemma cb_otp_wrong:
  "sep_free k \<Longrightarrow>
   cb_action (snd (otpKeyboard k)) = ''wrong_code'' \<and> cb_sessionId (snd (otpKeyboard k)) = k"
  by (simp add: sep_free_def otpKeyboard_def cb_action_def cb_sessionId_def prop_key_def)

subsection \<open>Single transitions, as a poll sees them\<close>

lemma poll_login_new:
  "body_action b = Some ''login_attempt'' \<Longrightarrow> \<not> truthy (body_sessionId b) \<Longrightarrow>
   fst (api_post t uuid m b st) = SuccessSession uuid \<and>
   poll uuid (step (Post t uuid m b) st) = SuccessStatus ''pending''"
  by (auto simp: poll_iff api_post_def login_attempt_def Let_def split: option.splits)

lemma poll_approve:
  "poll k st = SuccessStatus ''pending'' \<Longrightarrow> cb_action d = ''approve'' \<Longrightarrow>
   cb_sessionId d = k \<Longrightarrow>
   poll k (step (Hook t (Some d)) st) = SuccessStatus ''approved''"
  by (auto simp: poll_iff webhook_def set_status_def Let_def)

lemma poll_wrong_pin:
  "poll k st = SuccessStatus ''pending'' \<Longrightarrow> cb_action d = ''wrong_pin'' \<Longrightarrow>
   cb_sessionId d = k \<Longrightarrow>
   poll k (step (Hook t (Some d)) st) = SuccessStatus ''wrong_pin''"
  by (auto simp: poll_iff webhook_def set_status_def Let_def)

lemma poll_approve_otp:
  "poll k st = SuccessStatus v \<Longrightarrow> cb_action d = ''approve_otp'' \<Longrightarrow> cb_sessionId d = k \<Longrightarrow>
   poll k (step (Hook t (Some d)) st) = SuccessStatus ''continue''"
  by (auto simp: poll_iff webhook_def set_status_def Let_def)

lemma poll_wrong_code:
  "poll k st = SuccessStatus v \<Longrightarrow> cb_action d = ''wrong_code'' \<Longrightarrow> cb_sessionId d = k \<Longrightarrow>
   poll k (step (Hook t (Some d)) st) = SuccessStatus ''wrong_code''"
  by (auto simp: poll_iff webhook_def set_status_def Let_def)

lemma poll_otp_entered:
  "poll k st = SuccessStatus v \<Longrightarrow> body_action b = Some ''otp_entered'' \<Longrightarrow>
   body_sessionId b = Some k \<Longrightarrow>
   poll k (step (Post t u m b) st) = SuccessStatus ''otp_pending''"
  by (auto simp: poll_iff api_post_def otp_entered_def prop_key_def Let_def)

lemma poll_reset_otp:
  "poll k st = SuccessStatus v \<Longrightarrow> body_action b = Some ''reset_otp'' \<Longrightarrow>
   body_sessionId b = Some k \<Longrightarrow>
   poll k (step (Post t u m b) st) = SuccessStatus ''otp_pending''"
  by (auto simp: poll_iff api_post_def reset_otp_def set_status_def prop_key_def Let_def)

subsection \<open>Operator decisions and the phase of the session\<close>

text \<open>The two login decisions are guarded: off \<open>pending\<close> they change nothing.\<close>

lemma login_decision_guarded:
  "(cb_action d = ''approve'' \<or> cb_action d = ''wrong_pin'') \<Longrightarrow>
   sessions st (cb_sessionId d) = Some s \<Longrightarrow> status s \<noteq> ''pending'' \<Longrightarrow>
   webhook now (Some d) st = (Some AlreadyActioned, st)"
  by (auto simp: webhook_def Let_def)

text \<open>
  C1. A decision whose phase does not match the status of the session is answered
  "already actioned" and leaves the status alone. The login decisions do so
  (\<open>login_decision_guarded\<close>); the two OTP decisions have no guard. Here the OTP of
  session \<open>s1\<close> has been approved, the status is \<open>continue\<close>, and a late
  \<open>wrong_code\<close> decision is answered as a fresh rejection and overwrites the status.
\<close>

theorem otp_decision_not_guarded:
  "let st = run [Post 0 ''s1'' None (login_body ''1234''), Hook 1 (Some ''approve::s1''),
                 Post 2 ''s2'' None (otp_body ''s1'' ''54321''),
                 Hook 3 (Some ''approve_otp::s1'')] init
   in poll ''s1'' st = SuccessStatus ''continue'' \<and>
      fst (webhook 4 (Some ''wrong_code::s1'') st) = Some WrongCodeSent \<and>
      poll ''s1'' (snd (webhook 4 (Some ''wrong_code::s1'') st)) = SuccessStatus ''wrong_code''"
  by (simp add: init_def handler_defs body_defs)

subsection \<open>The end-to-end scenario\<close>

text \<open>
  C2. From any store: a login creates the session \<open>uuid\<close> (status \<open>pending\<close>), the
  operator approves (\<open>approved\<close>, the value that sends the client to the OTP screen),
  the client submits the OTP 54321 (\<open>otp_pending\<close>), the operator rejects it
  (\<open>wrong_code\<close>), the client resets (\<open>otp_pending\<close>) and resubmits
  (\<open>otp_pending\<close>), the operator approves: the status is \<open>continue\<close>.
\<close>

theorem end_to_end:
  assumes "sep_free uuid"
  shows "let login = b1\<lparr> body_action := Some ''login_attempt'', body_sessionId := None \<rparr>;
             submit = b2\<lparr> body_action := Some ''otp_entered'', body_sessionId := Some uuid,
                          body_otp := Some ''54321'' \<rparr>;
             reset = b3\<lparr> body_action := Some ''reset_otp'', body_sessionId := Some uuid \<rparr>;
             st1 = step (Post t1 uuid m1 login) st0;
             st2 = step (Hook t2 (Some (fst (loginKeyboard uuid)))) st1;
             st3 = step (Post t3 u3 m3 submit) st2;
             st4 = step (Hook t4 (Some (snd (otpKeyboard uuid)))) st3;
             st5 = step (Post t5 u5 m5 reset) st4;
             st6 = step (Post t6 u6 m6 submit) st5;
             st7 = step (Hook t7 (Some (fst (otpKeyboard uuid)))) st6
         in fst (api_post t1 uuid m1 login st0) = SuccessSession uuid \<and>
            poll uuid st1 = SuccessStatus ''pending'' \<and>
            poll uuid st2 = SuccessStatus ''approved'' \<and>
            poll uuid st3 = SuccessStatus ''otp_pending'' \<and>
            poll uuid st4 = SuccessStatus ''wrong_code'' \<and>
            poll uuid st5 = SuccessStatus ''otp_pending'' \<and>
            poll uuid st6 = SuccessStatus ''otp_pending'' \<and>
            poll uuid st7 = SuccessStatus ''continue''"
proof -
  let ?login = "b1\<lparr> body_action := Some ''login_attempt'', body_sessionId := None \<rparr>"
  let ?submit = "b2\<lparr> body_action := Some ''otp_entered'', body_sessionId := Some uuid,
                          body_otp := Some ''54321'' \<rparr>"
  let ?reset = "b3\<lparr> body_action := Some ''reset_otp'', body_sessionId := Some uuid \<rparr>"
  let ?st1 = "step (Post t1 uuid m1 ?login) st0"
  let ?st2 = "step (Hook t2 (Some (fst (loginKeyboard uuid)))) ?st1"
  let ?st3 = "step (Post t3 u3 m3 ?submit) ?st2"
  let ?st4 = "step (Hook t4 (Some (snd (otpKeyboard uuid)))) ?st3"
  let ?st5 = "step (Post t5 u5 m5 ?reset) ?st4"
  let ?st6 = "step (Post t6 u6 m6 ?submit) ?st5"
  let ?st7 = "step (Hook t7 (Some (fst (otpKeyboard uuid)))) ?st6"
  have p1: "fst (api_post t1 uuid m1 ?login st0) = SuccessSession uuid \<and>
            poll uuid ?st1 = SuccessStatus ''pending''"
    by (rule poll_login_new) simp_all
  have p2: "poll uuid ?st2 = SuccessStatus ''approved''"
    using p1 cb_login_approve [OF assms] by (intro poll_approve) simp_all
  have p3: "poll uuid ?st3 = SuccessStatus ''otp_pending''"
    by (rule poll_otp_entered [OF p2]) simp_all
  have p4: "poll uuid ?st4 = SuccessStatus ''wrong_code''"
    using cb_otp_wrong [OF assms] by (intro poll_wrong_code [OF p3]) simp_all
  have p5: "poll uuid ?st5 = SuccessStatus ''otp_pending''"
    by (rule poll_reset_otp [OF p4]) simp_all
  have p6: "poll uuid ?st6 = SuccessStatus ''otp_pending''"
    by (rule poll_otp_entered [OF p5]) simp_all
  have p7: "poll uuid ?st7 = SuccessStatus ''continue''"
    using cb_otp_approve [OF assms] by (intro poll_approve_otp [OF p6]) simp_all
  show ?thesis
    unfolding Let_def using p1 p2 p3 p4 p5 p6 p7 by (intro conjI) blast+
qed

theorem end_to_end_witness:
  "sep_free ''s1'' \<and>
   poll ''s1'' (run [Post 0 ''s1'' None (login_body ''1234''), Hook 1 (Some ''approve::s1''),
      Post 2 ''s2'' None (otp_body ''s1'' ''54321''), Hook 3 (Some ''wrong_code::s1''),
      Post 4 ''s3'' None (reset_body ''s1''), Post 5 ''s4'' None (otp_body ''s1'' ''54321''),
      Hook 6 (Some ''approve_otp::s1'')] init) = SuccessStatus ''continue''"
proof -
  have h: "sep_free ''s1''" by (simp add: sep_free_def)
  show ?thesis
    using h end_to_end [OF h, of "login_body ''1234''" "otp_body ''s1'' ''54321''"
        "reset_body ''s1''" 0 None init 1 2 "''s2''" None 3 4 "''s3''" None 5 "''s4''" None 6]
    by (simp add: Let_def body_defs loginKeyboard_def otpKeyboard_def)
qed

subsection \<open>The status stays in the closed enumeration\<close>


















subsection \<open>The revert timer\<close>

lemma one_timer_per_id:
  "distinct (map snd ts) \<Longrightarrow> (a, k) \<in> set ts \<Longrightarrow> (d, k) \<in> set ts \<Longrightarrow> a = d"
  using inj_onD [of snd "set ts" "(a, k)" "(d, k)"] by (simp add: distinct_map)

lemma timers_ok_post:
  "timers_ok st \<Longrightarrow> fresh (Post now uuid sent b) st \<Longrightarrow>
   timers_ok (snd (api_post now uuid sent b st))"
  unfolding timers_ok_def api_post_def login_attempt_def otp_entered_def otp_resend_def
    reset_otp_def
  by (auto simp: Let_def sessions_set_status timers_set_status image_iff
      split: option.splits if_splits)

lemma timers_ok_hook: "timers_ok st \<Longrightarrow> timers_ok (snd (webhook now cbq st))"
  unfolding timers_ok_def webhook_def
  by (auto simp: Let_def sessions_set_status timers_set_status image_iff
      split: option.splits if_splits)

lemma timers_ok_sweep: "timers_ok st \<Longrightarrow> timers_ok (sweep now st)"
  unfolding timers_ok_def sweep_def
  by (auto simp: Let_def split: option.splits if_splits)

lemma timers_ok_tick: "timers_ok st \<Longrightarrow> timers_ok (run_timers now st)"
  unfolding timers_ok_def
  by (auto simp: sessions_run_timers timers_run_timers distinct_map_filter
      dest: one_timer_per_id)

lemma timers_ok_step: "timers_ok st \<Longrightarrow> fresh e st \<Longrightarrow> timers_ok (step e st)"
  by (cases e) (simp_all add: timers_ok_post timers_ok_hook timers_ok_sweep timers_ok_tick)

lemma timers_ok_run: "timers_ok st \<Longrightarrow> fresh_run evs st \<Longrightarrow> timers_ok (run evs st)"
  by (induction evs arbitrary: st) (simp_all add: timers_ok_step)

lemma timers_ok_init: "timers_ok init"
  by (simp add: timers_ok_def init_def)

text \<open>A timer stays registered until the event loop turns at or after its time.\<close>

lemma timer_kept_step:
  "(d, k) \<in> set (timers st) \<Longrightarrow> ticks_before d [e] \<Longrightarrow> (d, k) \<in> set (timers (step e st))"
  by (cases e)
     (auto simp: api_post_def login_attempt_def otp_entered_def otp_resend_def reset_otp_def
       webhook_def sweep_def timers_set_status timers_run_timers Let_def split: option.splits)

lemma ticks_before_Cons: "ticks_before d (e # es) = (ticks_before d [e] \<and> ticks_before d es)"
  by (cases e) simp_all

lemma timer_kept_run:
  "(d, k) \<in> set (timers st) \<Longrightarrow> ticks_before d evs \<Longrightarrow> (d, k) \<in> set (timers (run evs st))"
proof (induction evs arbitrary: st)
  case Nil
  then show ?case by simp
next
  case (Cons e es)
  from Cons.prems(2) have "ticks_before d [e]" and "ticks_before d es"
    using ticks_before_Cons [of d e es] by simp_all
  with Cons.prems(1) Cons.IH show ?case
    by (simp add: timer_kept_step)
qed

lemma waiting_not_pending:
  assumes "timers_ok st" "(d, k) \<in> set (timers st)"
  shows "poll k st \<noteq> SuccessStatus ''pending''"
  using assms by (force simp: timers_ok_def poll_iff)

text \<open>
  C4. In a state reached from the empty store, the operator rejects the PIN of a
  \<open>pending\<close> session at time \<open>now\<close>. A poll right after reads \<open>wrong_pin\<close>. Whatever
  requests, decisions and sweeps follow, as long as the event loop has only turned at
  times before \<open>now + 2000\<close> a poll never reads \<open>pending\<close>; a turn of the event loop at
  \<open>now + 2000\<close> or later makes it read \<open>pending\<close>.
\<close>

theorem wrong_pin_revert:
  assumes "fresh_run evs0 init"
    and "sessions (run evs0 init) (cb_sessionId d) = Some s"
    and "status s = ''pending''"
    and "cb_action d = ''wrong_pin''"
  shows "let k = cb_sessionId d; st1 = step (Hook now (Some d)) (run evs0 init) in
           fst (webhook now (Some d) (run evs0 init)) = Some WrongPinSent \<and>
           poll k st1 = SuccessStatus ''wrong_pin'' \<and>
           (\<forall>evs. fresh_run evs st1 \<and> ticks_before (now + REVERT_DELAY) evs \<longrightarrow>
                  poll k (run evs st1) \<noteq> SuccessStatus ''pending'') \<and>
           (\<forall>t \<ge> now + REVERT_DELAY. poll k (step (Tick t) st1) = SuccessStatus ''pending'') \<and>
           REVERT_DELAY = 2000"
proof -
  let ?k = "cb_sessionId d"
  let ?st = "run evs0 init"
  let ?st1 = "step (Hook now (Some d)) ?st"
  have ok: "timers_ok ?st"
    by (rule timers_ok_run [OF timers_ok_init assms(1)])
  have ok1: "timers_ok ?st1"
    using ok by (simp add: timers_ok_hook)
  have ans: "fst (webhook now (Some d) ?st) = Some WrongPinSent"
    using assms(2-4) by (simp add: webhook_def Let_def)
  have tm: "(now + REVERT_DELAY, ?k) \<in> set (timers ?st1)"
    using assms(2-4) by (simp add: webhook_def Let_def)
  have p1: "poll ?k ?st1 = SuccessStatus ''wrong_pin''"
    using assms(2-4) by (intro poll_wrong_pin) (simp_all add: poll_iff)
  have before: "poll ?k (run evs ?st1) \<noteq> SuccessStatus ''pending''"
    if "fresh_run evs ?st1" "ticks_before (now + REVERT_DELAY) evs" for evs
    using timers_ok_run [OF ok1 that(1)] timer_kept_run [OF tm that(2)]
    by (rule waiting_not_pending)
  have after: "poll ?k (step (Tick t) ?st1) = SuccessStatus ''pending''"
    if "now + REVERT_DELAY \<le> t" for t
  proof -
    from p1 obtain s1 where "sessions ?st1 ?k = Some s1"
      by (auto simp: poll_iff)
    with tm that show ?thesis
      by (auto simp: poll_iff sessions_run_timers)
  qed
  show ?thesis
    unfolding Let_def using ans p1 before after by (simp add: REVERT_DELAY_def)
qed

theorem wrong_pin_revert_witness:
  "poll ''s1'' (run [Post 0 ''s1'' None (login_body ''1234''), Hook 1 (Some ''wrong_pin::s1'')] init)
     = SuccessStatus ''wrong_pin'' \<and>
   poll ''s1'' (run [Post 0 ''s1'' None (login_body ''1234''), Hook 1 (Some ''wrong_pin::s1''),
     Tick 2000] init) \<noteq> SuccessStatus ''pending'' \<and>
   poll ''s1'' (run [Post 0 ''s1'' None (login_body ''1234''), Hook 1 (Some ''wrong_pin::s1''),
     Tick 2001] init) = SuccessStatus ''pending''"
proof -
  let ?evs0 = "[Post 0 ''s1'' None (login_body ''1234'')]"
  let ?d = "''wrong_pin::s1''"
  let ?st1 = "step (Hook 1 (Some ?d)) (run ?evs0 init)"
  have h1: "fresh_run ?evs0 init"
    by (simp add: init_def)
  have k: "cb_sessionId ?d = ''s1''"
    by (simp add: cb_sessionId_def prop_key_def)
  have "poll ''s1'' (run ?evs0 init) = SuccessStatus ''pending''"
    by (simp add: init_def handler_defs body_defs)
  then obtain s where h2: "sessions (run ?evs0 init) (cb_sessionId ?d) = Some s"
    and h3: "status s = ''pending''"
    unfolding k poll_iff by blast
  have h4: "cb_action ?d = ''wrong_pin''"
    by (simp add: cb_action_def)
  note w = wrong_pin_revert [OF h1 h2 h3 h4, of 1, unfolded Let_def k]
  from w have a: "poll ''s1'' ?st1 = SuccessStatus ''wrong_pin''"
    by blast
  from w have "fresh_run [Tick 2000] ?st1 \<and> ticks_before (1 + REVERT_DELAY) [Tick 2000] \<longrightarrow>
      poll ''s1'' (run [Tick 2000] ?st1) \<noteq> SuccessStatus ''pending''"
    by blast
  then have b: "poll ''s1'' (run [Tick 2000] ?st1) \<noteq> SuccessStatus ''pending''"
    by (simp add: REVERT_DELAY_def)
  from w have "1 + REVERT_DELAY \<le> 2001 \<longrightarrow>
      poll ''s1'' (step (Tick 2001) ?st1) = SuccessStatus ''pending''"
    by blast
  then have c: "poll ''s1'' (step (Tick 2001) ?st1) = SuccessStatus ''pending''"
    by (simp add: REVERT_DELAY_def)
  from a b c show ?thesis by simp
qed

text \<open>The callback does check that the session is still in the store.\<close>

lemma revert_cb_absent: "sessions st k = None \<Longrightarrow> revert_cb k st = st"
  by (simp add: revert_cb_def)

text \<open>
  C5. When the revert timer fires it looks at the session again and writes only when
  the session is still there and still \<open>wrong_pin\<close>. The callback checks that the
  session exists (\<open>revert_cb_absent\<close>) and nothing else. Here session \<open>s1\<close> is
  rejected at time 1, the client submits an OTP at 500, the operator approves it at 600
  and the status is \<open>continue\<close>; the timer of the rejection, due at 2001, sets it back
  to \<open>pending\<close>.
\<close>

theorem revert_overwrites_later_status:
  "let st = run [Post 0 ''s1'' None (login_body ''1234''), Hook 1 (Some ''wrong_pin::s1''),
                 Post 500 ''s2'' None (otp_body ''s1'' ''54321''),
                 Hook 600 (Some ''approve_otp::s1'')] init
   in poll ''s1'' st = SuccessStatus ''continue'' \<and>
      timers st = [(2001, ''s1'')] \<and>
      poll ''s1'' (step (Tick 2001) st) = SuccessStatus ''pending''"
  by (simp add: init_def handler_defs body_defs)

subsection \<open>Resubmission\<close>

text \<open>
  C6. A login that names a \<open>pending\<close> session stores the new PIN in that session, whose
  status stays \<open>pending\<close>; an OTP submitted for an \<open>otp_pending\<close> session stores the
  new OTP, and the status stays \<open>otp_pending\<close>. No other session changes.
\<close>

theorem resubmission_keeps_status:
  "(body_action b = Some ''login_attempt'' \<and> body_sessionId b = Some k \<and> k \<noteq> [] \<and>
    sessions st k = Some s \<and> status s = ''pending'' \<longrightarrow>
      fst (api_post now uuid sent b st) = SuccessSession k \<and>
      (\<exists>s'. sessions (snd (api_post now uuid sent b st)) k = Some s' \<and>
            pin s' = body_pin b \<and> status s' = ''pending'') \<and>
      (\<forall>k'. k' \<noteq> k \<longrightarrow> sessions (snd (api_post now uuid sent b st)) k' = sessions st k')) \<and>
   (body_action b = Some ''otp_entered'' \<and> body_sessionId b = Some k \<and>
    sessions st k = Some s \<and> status s = ''otp_pending'' \<longrightarrow>
      fst (api_post now uuid sent b st) = Success \<and>
      (\<exists>s'. sessions (snd (api_post now uuid sent b st)) k = Some s' \<and>
            otp s' = body_otp b \<and> status s' = ''otp_pending'') \<and>
      (\<forall>k'. k' \<noteq> k \<longrightarrow> sessions (snd (api_post now uuid sent b st)) k' = sessions st k'))"
  by (cases k) (auto simp: api_post_def login_attempt_def otp_entered_def prop_key_def Let_def
      split: option.splits)

theorem resubmission_keeps_status_witness:
  "(\<exists>s'. sessions (snd (api_post 5 ''s2'' None (relogin_body ''s1'' ''9999'')
             (run [Post 0 ''s1'' None (login_body ''1234'')] init))) ''s1'' = Some s' \<and>
         pin s' = Some ''9999'' \<and> status s' = ''pending'') \<and>
   (\<exists>s'. sessions (snd (api_post 5 ''s2'' None (otp_body ''s1'' ''222'')
             (run [Post 0 ''s1'' None (login_body ''1234''), Hook 1 (Some ''approve::s1''),
                   Post 2 ''s3'' None (otp_body ''s1'' ''111'')] init))) ''s1'' = Some s' \<and>
         otp s' = Some ''222'' \<and> status s' = ''otp_pending'')"
proof -
  let ?sa = "run [Post 0 ''s1'' None (login_body ''1234'')] init"
  let ?sb = "run [Post 0 ''s1'' None (login_body ''1234''), Hook 1 (Some ''approve::s1''),
                   Post 2 ''s3'' None (otp_body ''s1'' ''111'')] init"
  have "poll ''s1'' ?sa = SuccessStatus ''pending''"
    by (simp add: init_def handler_defs body_defs)
  then obtain sa where sa: "sessions ?sa ''s1'' = Some sa" "status sa = ''pending''"
    unfolding poll_iff by blast
  have "poll ''s1'' ?sb = SuccessStatus ''otp_pending''"
    by (simp add: init_def handler_defs body_defs)
  then obtain sb where sb: "sessions ?sb ''s1'' = Some sb" "status sb = ''otp_pending''"
    unfolding poll_iff by blast
  have ba: "body_action (relogin_body ''s1'' ''9999'') = Some ''login_attempt''"
    "body_sessionId (relogin_body ''s1'' ''9999'') = Some ''s1''"
    "body_pin (relogin_body ''s1'' ''9999'') = Some ''9999''"
    by (simp_all add: body_defs)
  have bb: "body_action (otp_body ''s1'' ''222'') = Some ''otp_entered''"
    "body_sessionId (otp_body ''s1'' ''222'') = Some ''s1''"
    "body_otp (otp_body ''s1'' ''222'') = Some ''222''"
    by (simp_all add: body_defs)
  have A: "\<exists>s'. sessions (snd (api_post 5 ''s2'' None (relogin_body ''s1'' ''9999'') ?sa)) ''s1''
             = Some s' \<and> pin s' = Some ''9999'' \<and> status s' = ''pending''"
    using resubmission_keeps_status [of "relogin_body ''s1'' ''9999''" "''s1''" ?sa sa 5 "''s2''" None]
      sa ba by auto
  have B: "\<exists>s'. sessions (snd (api_post 5 ''s2'' None (otp_body ''s1'' ''222'') ?sb)) ''s1''
             = Some s' \<and> otp s' = Some ''222'' \<and> status s' = ''otp_pending''"
    using resubmission_keeps_status [of "otp_body ''s1'' ''222''" "''s1''" ?sb sb 5 "''s2''" None]
      sb bb by auto
  from A B show ?thesis by blast
qed

subsection \<open>The sweep\<close>

text \<open>
  C7. The sweep at time \<open>now\<close> removes exactly the sessions whose age
  \<open>now - createdAt\<close> exceeds the TTL of 30 minutes, whatever their status, and keeps
  every other session as it is.
\<close>

theorem sweep_evicts_by_age:
  "(sessions st k = Some s \<and> TTL < now - createdAt s \<longrightarrow>
      sessions (step (Sweep now) st) k = None) \<and>
   (sessions st k = Some s \<and> now - createdAt s \<le> TTL \<longrightarrow>
      sessions (step (Sweep now) st) k = Some s) \<and>
   (sessions st k = None \<longrightarrow> sessions (step (Sweep now) st) k = None) \<and>
   TTL = 1800000"
  by (auto simp: sweep_def TTL_def Let_def)

theorem sweep_evicts_by_age_witness:
  "poll ''s1'' (step (Sweep 1800001)
     (run [Post 0 ''s1'' None (login_body ''1234''), Hook 1 (Some ''approve::s1''),
           Post 1000000 ''s2'' None (login_body ''5678'')] init)) = SessionNotFound \<and>
   poll ''s2'' (step (Sweep 1800001)
     (run [Post 0 ''s1'' None (login_body ''1234''), Hook 1 (Some ''approve::s1''),
           Post 1000000 ''s2'' None (login_body ''5678'')] init)) = SuccessStatus ''pending''"
proof -
  let ?st = "run [Post 0 ''s1'' None (login_body ''1234''), Hook 1 (Some ''approve::s1''),
           Post 1000000 ''s2'' None (login_body ''5678'')] init"
  have "\<exists>s. sessions ?st ''s1'' = Some s \<and> createdAt s = 0 \<and> status s = ''approved''"
    by (simp add: init_def handler_defs body_defs)
  then obtain s1 where s1: "sessions ?st ''s1'' = Some s1" "createdAt s1 = 0"
    by blast
  have "\<exists>s. sessions ?st ''s2'' = Some s \<and> createdAt s = 1000000 \<and> status s = ''pending''"
    by (simp add: init_def handler_defs body_defs)
  then obtain s2 where s2: "sessions ?st ''s2'' = Some s2" "createdAt s2 = 1000000"
    "status s2 = ''pending''"
    by blast
  have "sessions (step (Sweep 1800001) ?st) ''s1'' = None"
    using sweep_evicts_by_age [of ?st "''s1''" s1 1800001] s1 by simp
  then have A: "poll ''s1'' (step (Sweep 1800001) ?st) = SessionNotFound"
    using s1_not_inherited by (rule poll_absent)
  have "sessions (step (Sweep 1800001) ?st) ''s2'' = Some s2"
    using sweep_evicts_by_age [of ?st "''s2''" s2 1800001] s2 by simp
  with s2(3) have B: "poll ''s2'' (step (Sweep 1800001) ?st) = SuccessStatus ''pending''"
    unfolding poll_iff by blast
  from A B show ?thesis by blast
qed

subsection \<open>Polling\<close>

lemma dom_step:
  "sessions (step e st) k = Some s \<Longrightarrow> k \<in> dom (sessions st) \<or> k \<in> set (issued [e])"
  by (cases e)
     (auto simp: api_post_def login_attempt_def otp_entered_def otp_resend_def reset_otp_def
       webhook_def sweep_def sessions_set_status sessions_run_timers Let_def
       split: option.splits if_splits)

lemma issued_Cons: "set (issued (e # es)) = set (issued [e]) \<union> set (issued es)"
  by (cases e) simp_all

lemma dom_run:
  "sessions (run evs st) k = Some s \<Longrightarrow> k \<in> dom (sessions st) \<or> k \<in> set (issued evs)"
proof (induction evs arbitrary: st)
  case Nil
  then show ?case by auto
next
  case (Cons e es)
  from Cons.prems have "sessions (run es (step e st)) k = Some s" by simp
  from Cons.IH [OF this] show ?case
  proof
    assume "k \<in> dom (sessions (step e st))"
    then obtain s' where "sessions (step e st) k = Some s'" by auto
    from dom_step [OF this] show ?thesis
      using issued_Cons [of e es] by auto
  next
    assume "k \<in> set (issued es)"
    then show ?thesis using issued_Cons [of e es] by auto
  qed
qed

text \<open>
  For an id that names no inherited member the poll does what it is meant to do: "not
  found" when the id was never issued, when the sweep evicted its session, and whenever
  the id is not in the store; the status of the session when it is.
\<close>

lemma poll_never_issued:
  assumes "k \<notin> set (issued evs)" "k \<notin> set proto_names"
  shows "poll k (run evs init) = SessionNotFound"
proof (cases "sessions (run evs init) k")
  case None
  then show ?thesis using assms(2) by (rule poll_absent)
next
  case (Some s')
  from dom_run [OF this] assms(1) show ?thesis by (simp add: init_def)
qed

lemma poll_evicted:
  assumes "sessions st k = Some s" "TTL < now - createdAt s" "k \<notin> set proto_names"
  shows "poll k (step (Sweep now) st) = SessionNotFound"
proof -
  from assms(1,2) have "sessions (step (Sweep now) st) k = None"
    by (simp add: sweep_def Let_def)
  then show ?thesis using assms(3) by (rule poll_absent)
qed

lemma poll_present: "sessions st k = Some s \<Longrightarrow> poll k st = SuccessStatus (status s)"
  by (simp add: api_get_def prop_key_def)

text \<open>
  C8. A poll for an id that was never issued answers "not found". The id
  \<open>constructor\<close> is never issued, in the empty store and after a login that issued
  \<open>s1\<close>, and it is not in the store; the poll \<open>check_status\<close> for it answers
  \<open>{ success: true }\<close>, not "session not found" as it does for the unknown id
  \<open>s7\<close>.
\<close>

theorem poll_inherited_name:
  "let st = run [Post 0 ''s1'' None (login_body ''1234'')] init in
     ''constructor'' \<notin> set (issued [Post 0 ''s1'' None (login_body ''1234'')]) \<and>
     sessions st ''constructor'' = None \<and>
     poll ''constructor'' st = Success \<and>
     poll ''constructor'' init = Success \<and>
     poll ''s7'' st = SessionNotFound \<and>
     poll ''s1'' st = SuccessStatus ''pending''"
  by (simp add: init_def handler_defs body_defs proto_names_def)

subsection \<open>The admin listing\<close>

text \<open>
  C9. The secret of the request (the query parameter when it is a non-empty string, else
  the header) is compared with the configured secret (the environment variable when it
  is a non-empty string, else the built-in default) by equality. The answer is Forbidden,
  which carries no session data, exactly when the two differ, a missing secret included.
  When they are equal the answer is the dump: it has an entry for exactly the sessions
  of the store, and the entry of a session repeats its names, phone, PIN, OTP (or null),
  status, address and creation time.
\<close>

theorem admin_secret_gate:
  "(admin_sessions env q h st = Forbidden \<longleftrightarrow>
      (if truthy q then q else h) \<noteq>
        Some (case env of Some (c # cs) \<Rightarrow> c # cs | _ \<Rightarrow> ''wavesmart2026'')) \<and>
   ((if truthy q then q else h) =
        Some (case env of Some (c # cs) \<Rightarrow> c # cs | _ \<Rightarrow> ''wavesmart2026'') \<longrightarrow>
      (\<exists>m. admin_sessions env q h st = SessionDump m \<and>
           (\<forall>k. m k =
              (case sessions st k of
                 None \<Rightarrow> None
               | Some s \<Rightarrow>
                   Some \<lparr> d_firstName = firstName s, d_lastName = lastName s,
                          d_phone = phone s, d_pin = pin s,
                          d_otp = (if truthy (otp s) then otp s else None),
                          d_status = status s, d_ip = ip s,
                          d_createdAt = createdAt s \<rparr>))))"
proof -
  have cfg: "ADMIN_SECRET env = (case env of Some (c # cs) \<Rightarrow> c # cs | _ \<Rightarrow> ''wavesmart2026'')"
    by (cases env rule: truthy.cases)
       (simp_all add: ADMIN_SECRET_def DEFAULT_SECRET_def js_or_def default_to_def)
  have ent: "map_option entry_of (sessions st k) =
      (case sessions st k of
         None \<Rightarrow> None
       | Some s \<Rightarrow>
           Some \<lparr> d_firstName = firstName s, d_lastName = lastName s,
                  d_phone = phone s, d_pin = pin s,
                  d_otp = (if truthy (otp s) then otp s else None),
                  d_status = status s, d_ip = ip s,
                  d_createdAt = createdAt s \<rparr>)" for k
    by (simp add: entry_of_def js_or_def split: option.splits)
  show ?thesis
    unfolding cfg [symmetric]
    by (simp add: admin_sessions_def js_or_def Let_def ent)
qed

theorem admin_secret_gate_witness:
  "admin_sessions None (Some ''wavesmart202'') None
     (run [Post 0 ''s1'' None (login_body ''1234''), Hook 1 (Some ''approve::s1''),
           Post 2 ''s2'' None (otp_body ''s1'' ''54321'')] init) = Forbidden \<and>
   admin_sessions None None None
     (run [Post 0 ''s1'' None (login_body ''1234''), Hook 1 (Some ''approve::s1''),
           Post 2 ''s2'' None (otp_body ''s1'' ''54321'')] init) = Forbidden \<and>
   admin_sessions (Some ''hunter2'') (Some ''wavesmart2026'') None init = Forbidden \<and>
   admin_sessions (Some ''hunter2'') (Some []) (Some ''hunter2'') init \<noteq> Forbidden \<and>
   (\<exists>m. admin_sessions None (Some ''wavesmart2026'') None
          (run [Post 0 ''s1'' None (login_body ''1234''), Hook 1 (Some ''approve::s1''),
                Post 2 ''s2'' None (otp_body ''s1'' ''54321'')] init) = SessionDump m \<and>
        m ''s1'' = Some \<lparr> d_firstName = ''Unknown'', d_lastName = ''User'', d_phone = None,
                          d_pin = Some ''1234'', d_otp = Some ''54321'',
                          d_status = ''otp_pending'', d_ip = ''unknown'', d_createdAt = 0 \<rparr> \<and>
        m ''s7'' = None)"
proof -
  let ?st = "run [Post 0 ''s1'' None (login_body ''1234''), Hook 1 (Some ''approve::s1''),
           Post 2 ''s2'' None (otp_body ''s1'' ''54321'')] init"
  have s1: "sessions ?st ''s1'' =
      Some \<lparr> firstName = ''Unknown'', lastName = ''User'', phone = None, pin = Some ''1234'',
             status = ''otp_pending'', createdAt = 0, ip = ''unknown'', msgId = None,
             otpMsgId = None, otp = Some ''54321'', otpAt = Some 2 \<rparr>"
    by (simp add: init_def handler_defs body_defs)
  have s7: "sessions ?st ''s7'' = None"
    by (simp add: init_def handler_defs body_defs)
  have A: "admin_sessions None (Some ''wavesmart202'') None ?st = Forbidden"
    using admin_secret_gate [of None "Some ''wavesmart202''" None ?st] by simp
  have B: "admin_sessions None None None ?st = Forbidden"
    using admin_secret_gate [of None None None ?st] by simp
  have D: "admin_sessions (Some ''hunter2'') (Some ''wavesmart2026'') None init = Forbidden"
    using admin_secret_gate [of "Some ''hunter2''" "Some ''wavesmart2026''" None init] by simp
  have E: "admin_sessions (Some ''hunter2'') (Some []) (Some ''hunter2'') init \<noteq> Forbidden"
    using admin_secret_gate [of "Some ''hunter2''" "Some []" "Some ''hunter2''" init] by simp
  have "\<exists>m. admin_sessions None (Some ''wavesmart2026'') None ?st = SessionDump m \<and>
        (\<forall>k. m k =
              (case sessions ?st k of
                 None \<Rightarrow> None
               | Some s \<Rightarrow>
                   Some \<lparr> d_firstName = firstName s, d_lastName = lastName s,
                          d_phone = phone s, d_pin = pin s,
                          d_otp = (if truthy (otp s) then otp s else None),
                          d_status = status s, d_ip = ip s,
                          d_createdAt = createdAt s \<rparr>))"
    using admin_secret_gate [of None "Some ''wavesmart2026''" None ?st] by simp
  then obtain m where m: "admin_sessions None (Some ''wavesmart2026'') None ?st = SessionDump m"
    and e: "\<And>k. m k =
              (case sessions ?st k of
                 None \<Rightarrow> None
               | Some s \<Rightarrow>
                   Some \<lparr> d_firstName = firstName s, d_lastName = lastName s,
                          d_phone = phone s, d_pin = pin s,
                          d_otp = (if truthy (otp s) then otp s else None),
                          d_status = status s, d_ip = ip s,
                          d_createdAt = createdAt s \<rparr>)"
    by blast
  have C1: "m ''s1'' = Some \<lparr> d_firstName = ''Unknown'', d_lastName = ''User'', d_phone = None,
                          d_pin = Some ''1234'', d_otp = Some ''54321'',
                          d_status = ''otp_pending'', d_ip = ''unknown'', d_createdAt = 0 \<rparr>"
    unfolding e [of "''s1''"] s1 by simp
  have C2: "m ''s7'' = None"
    unfolding e [of "''s7''"] s7 by simp
  from A B D E m C1 C2 show ?thesis by blast
qed

subsection \<open>Submitting an OTP\<close>

text \<open>
  C10. The action \<open>otp_entered\<close> on any session of the store, whatever its status
  (\<open>pending\<close>, \<open>continue\<close>, \<open>wrong_code\<close> or any other), succeeds and leaves the
  session \<open>otp_pending\<close>.
\<close>

theorem otp_entered_unconditional:
  "body_action b = Some ''otp_entered'' \<and> sessions st (prop_key (body_sessionId b)) = Some s \<longrightarrow>
     fst (api_post now uuid sent b st) = Success \<and>
     poll (prop_key (body_sessionId b)) (step (Post now uuid sent b) st)
       = SuccessStatus ''otp_pending''"
  by (auto simp: api_post_def otp_entered_def api_get_def prop_key_def Let_def
      split: option.splits)

theorem otp_entered_unconditional_witness:
  "poll ''s1'' (run [Post 0 ''s1'' None (login_body ''1234'')] init) = SuccessStatus ''pending'' \<and>
   poll ''s1'' (run [Post 0 ''s1'' None (login_body ''1234''),
                     Post 1 ''s2'' None (otp_body ''s1'' ''54321'')] init)
     = SuccessStatus ''otp_pending''"
proof -
  let ?st = "run [Post 0 ''s1'' None (login_body ''1234'')] init"
  let ?b = "otp_body ''s1'' ''54321''"
  have p: "poll ''s1'' ?st = SuccessStatus ''pending''"
    by (simp add: init_def handler_defs body_defs)
  then obtain s where s: "sessions ?st ''s1'' = Some s"
    unfolding poll_iff by blast
  have b: "body_action ?b = Some ''otp_entered''" "prop_key (body_sessionId ?b) = ''s1''"
    by (simp_all add: body_defs prop_key_def)
  have "poll ''s1'' (step (Post 1 ''s2'' None ?b) ?st) = SuccessStatus ''otp_pending''"
    using otp_entered_unconditional [of ?b ?st s 1 "''s2''" None] s b by simp
  with p show ?thesis by simp
qed

end
